theory Spec2Isabelle
  imports Complex_Main
begin

section \<open>fastquant: the strategy template of \<open>src/fastquant/strategies.py\<close>\<close>

text \<open>
  The development embeds \<open>BaseStrategy\<close> (its constructor, \<open>notify_order\<close>,
  \<open>notify_trade\<close>, \<open>notify_cashvalue\<close> and \<open>next\<close>), the two signal variants
  and \<open>backtest\<close>.

  Numbers. Prices, cash and proportions are Python numbers; they are modelled as exact
  rationals (\<open>rat\<close>), so \<open>0.0075\<close> is \<open>75 / 10000\<close> and \<open>/\<close> is true division
  (the module imports \<open>division\<close> from \<open>__future__\<close>). Rounding of binary floating
  point is outside the model. Sizes are Python integers (\<open>int\<close>).

  Effects. A strategy object is a record; every method takes the record and returns the
  updated one. A raised exception is the \<open>Inl\<close> branch of \<open>error + strategy\<close>. Lines
  printed by \<open>log\<close> are collected, in order, in the field \<open>logs\<close>; orders handed to the
  broker are collected, in order, in the field \<open>submitted\<close>.
\<close>

subsection \<open>Module constants\<close>

definition INIT_CASH :: rat where
  "INIT_CASH = 100000"

definition COMMISSION_PER_TRANSACTION :: rat where
  "COMMISSION_PER_TRANSACTION = 75 / 10000"

definition BUY_PROP :: rat where
  "BUY_PROP = 1"

definition SELL_PROP :: rat where
  "SELL_PROP = 1"

subsection \<open>Errors, orders, log lines\<close>

datatype error =
  AttributeError | IndexError | ZeroDivisionError | ValueError | KeyError | TypeError

text \<open>The order statuses of the engine, and the two execution types the module uses.\<close>

datatype order_status =
  Created | Submitted | Accepted | Partial | Completed | Canceled | Expired | Margin | Rejected

datatype exectype = Market | Close

record executed =
  price :: rat
  ex_value :: rat
  comm :: rat

record bt_order =
  isbuy :: bool
  size :: int
  exec_type :: exectype
  status :: order_status
  executed :: executed

text \<open>
  One constructor per \<open>self.log(...)\<close> call of the source; the arguments are the values
  the format string prints (the date stamp that \<open>log\<close> prefixes is left out).
\<close>

datatype log_entry =
    LogClose rat
  | LogPositionSize int
  | LogBuyCreate rat
  | LogCash rat
  | LogPrice rat
  | LogBuyPropSize int
  | LogAffordedSize int
  | LogFinalSize int
  | LogSellCreate rat
  | LogBuyExecuted rat rat rat
  | LogSellExecuted rat rat rat
  | LogCashValue rat rat
  | LogOrderCanceledMarginRejected
  | LogCanceled bool
  | LogMargin bool
  | LogRejected bool
  | LogOperationProfit rat rat

subsection \<open>The strategy object\<close>

text \<open>The three classes of \<open>STRATEGY_MAPPING\<close> with their own parameters.\<close>

datatype variant =
    BaseStrategy
  | RSIStrategy (rsi_period: rat) (rsi_upper: rat) (rsi_lower: rat)
  | SMACStrategy (fast_period: rat) (slow_period: rat)

record params =
  p_init_cash :: rat
  p_buy_prop :: rat
  p_sell_prop :: rat
  p_execution_type :: string
  p_periodic_logging :: bool
  p_transaction_logging :: bool

text \<open>
  The data feed \<open>self.datas[0]\<close>: the close line, the open line, and the indicator lines
  the engine computes over it (\<open>self.rsi\<close>, \<open>self.crossover\<close>). A column the feed
  format marks absent (\<open>"open": None\<close> in \<open>DATA_FORMAT_MAPPING\<close>) holds no number:
  its entries are \<open>None\<close>.
\<close>

record datafeed =
  closes :: "rat list"
  opens :: "rat option list"
  rsi_line :: "rat list"
  crossover_line :: "rat list"

text \<open>
  The attributes of a strategy object. \<open>cash\<close> and \<open>portfolio_value\<close> (the source's
  \<open>self.cash\<close> and \<open>self.value\<close>) are not assigned by the constructor: they are
  \<open>None\<close> until \<open>notify_cashvalue\<close> has run, and reading them before raises
  \<open>AttributeError\<close>. \<open>idx\<close> is the position of the engine in the lines (\<open>-1\<close> before
  the first bar, \<open>i\<close> at bar \<open>i\<close>); \<open>position_size\<close> is \<open>self.position.size\<close>, which
  the broker maintains and the strategy reads.
\<close>

record strategy =
  variant :: variant
  init_cash :: rat
  buy_prop :: rat
  sell_prop :: rat
  execution_type :: string
  periodic_logging :: bool
  transaction_logging :: bool
  datas :: datafeed
  idx :: int
  order :: "bt_order option"
  buyprice :: "rat option"
  buycomm :: "rat option"
  bar_executed :: "nat option"
  len_data :: nat
  cash :: "rat option"
  portfolio_value :: "rat option"
  position_size :: int
  submitted :: "bt_order list"
  logs :: "log_entry list"

subsection \<open>What the strategy uses of the engine\<close>

text \<open>
  \<open>line[ago]\<close> on a line of the engine reads \<open>array[idx + ago]\<close> of the underlying
  Python array: an index below zero counts from the end, an index out of range raises
  \<open>IndexError\<close>.
\<close>

definition line_get :: "'a list \<Rightarrow> int \<Rightarrow> int \<Rightarrow> error + 'a" where
  "line_get arr i ago =
     (let n = int (length arr); j = i + ago;
          k = (if j < 0 then n + j else j)
      in if 0 \<le> k \<and> k < n then Inr (arr ! nat k) else Inl IndexError)"

text \<open>
  \<open>list(line)\<close>: the line defines \<open>__getitem__\<close> and no \<open>__iter__\<close>, so Python
  iterates by reading items \<open>0, 1, 2, \<dots>\<close> until \<open>IndexError\<close>.
\<close>

function line_items :: "'a list \<Rightarrow> int \<Rightarrow> nat \<Rightarrow> 'a list" where
  "line_items arr i k =
     (case line_get arr i (int k) of
        Inl e \<Rightarrow> []
      | Inr v \<Rightarrow> v # line_items arr i (Suc k))"
  by pat_completeness auto
termination
  by (relation "measure (\<lambda>(arr, i, k). nat (2 * int (length arr) - (i + int k)))")
     (auto simp: line_get_def Let_def split: if_splits)

text \<open>\<open>len(self)\<close>: the number of bars the engine has delivered so far.\<close>

definition len_self :: "strategy \<Rightarrow> nat" where
  "len_self s = nat (idx s + 1)"

text \<open>\<open>int(x)\<close> on a Python number truncates towards zero.\<close>

definition py_int :: "rat \<Rightarrow> int" where
  "py_int x = (if 0 \<le> x then \<lfloor>x\<rfloor> else \<lceil>x\<rceil>)"

definition log_line :: "log_entry \<Rightarrow> strategy \<Rightarrow> strategy" where
  "log_line e s = s\<lparr>logs := logs s @ [e]\<rparr>"

text \<open>
  \<open>self.buy(size=n, exectype=t)\<close> and \<open>self.sell(size=n, exectype=t)\<close> of the engine's
  strategy class: when \<open>n\<close> is zero no order is created and the call returns \<open>None\<close>;
  otherwise an order of size \<open>abs(n)\<close> is handed to the broker and returned.
\<close>

definition new_order :: "bool \<Rightarrow> int \<Rightarrow> exectype \<Rightarrow> bt_order" where
  "new_order b n t =
     \<lparr>isbuy = b, size = \<bar>n\<bar>, exec_type = t, status = Submitted,
      executed = \<lparr>price = 0, ex_value = 0, comm = 0\<rparr>\<rparr>"

definition strategy_buy :: "int \<Rightarrow> exectype \<Rightarrow> strategy \<Rightarrow> bt_order option \<times> strategy" where
  "strategy_buy n t s =
     (if n \<noteq> 0
      then (Some (new_order True n t), s\<lparr>submitted := submitted s @ [new_order True n t]\<rparr>)
      else (None, s))"

definition strategy_sell :: "int \<Rightarrow> exectype \<Rightarrow> strategy \<Rightarrow> bt_order option \<times> strategy" where
  "strategy_sell n t s =
     (if n \<noteq> 0
      then (Some (new_order False n t), s\<lparr>submitted := submitted s @ [new_order False n t]\<rparr>)
      else (None, s))"

subsection \<open>\<open>BaseStrategy.__init__\<close> and the signals\<close>

text \<open>
  The constructor copies the parameters, clears \<open>order\<close>, \<open>buyprice\<close> and \<open>buycomm\<close>
  and stores \<open>len(list(self.datas[0]))\<close>. It runs before the first bar, when the lines
  stand at \<open>idx = -1\<close>; item \<open>0\<close> of the feed is item \<open>0\<close> of its first line, the close.
\<close>

definition strategy_init :: "variant \<Rightarrow> params \<Rightarrow> datafeed \<Rightarrow> strategy" where
  "strategy_init v p d =
     \<lparr>variant = v,
      init_cash = p_init_cash p,
      buy_prop = p_buy_prop p,
      sell_prop = p_sell_prop p,
      execution_type = p_execution_type p,
      periodic_logging = p_periodic_logging p,
      transaction_logging = p_transaction_logging p,
      datas = d,
      idx = - 1,
      order = None,
      buyprice = None,
      buycomm = None,
      bar_executed = None,
      len_data = length (line_items (closes d) (- 1) 0),
      cash = None,
      portfolio_value = None,
      position_size = 0,
      submitted = [],
      logs = []\<rparr>"

text \<open>
  \<open>buy_signal\<close> and \<open>sell_signal\<close>: constant \<open>True\<close> in the base class, overridden by
  the two subclasses, which read the current value of their indicator line.
\<close>

definition buy_signal :: "strategy \<Rightarrow> error + bool" where
  "buy_signal s =
     (case variant s of
        BaseStrategy \<Rightarrow> Inr True
      | RSIStrategy per up lo \<Rightarrow>
          (case line_get (rsi_line (datas s)) (idx s) 0 of
             Inl e \<Rightarrow> Inl e
           | Inr r \<Rightarrow> Inr (r < lo))
      | SMACStrategy f sl \<Rightarrow>
          (case line_get (crossover_line (datas s)) (idx s) 0 of
             Inl e \<Rightarrow> Inl e
           | Inr c \<Rightarrow> Inr (c > 0)))"

definition sell_signal :: "strategy \<Rightarrow> error + bool" where
  "sell_signal s =
     (case variant s of
        BaseStrategy \<Rightarrow> Inr True
      | RSIStrategy per up lo \<Rightarrow>
          (case line_get (rsi_line (datas s)) (idx s) 0 of
             Inl e \<Rightarrow> Inl e
           | Inr r \<Rightarrow> Inr (r > up))
      | SMACStrategy f sl \<Rightarrow>
          (case line_get (crossover_line (datas s)) (idx s) 0 of
             Inl e \<Rightarrow> Inl e
           | Inr c \<Rightarrow> Inr (c < 0)))"

subsection \<open>Notifications\<close>

text \<open>\<open>transaction_logging\<close> gates a log line.\<close>

definition tlog :: "log_entry \<Rightarrow> strategy \<Rightarrow> strategy" where
  "tlog e s = (if transaction_logging s then log_line e s else s)"

text \<open>
  The branch of \<open>notify_order\<close> for \<open>Canceled\<close>, \<open>Margin\<close> and \<open>Rejected\<close>
  (source lines 119 to 126).
\<close>

definition notify_failed :: "order_status \<Rightarrow> strategy \<Rightarrow> error + strategy" where
  "notify_failed st s =
     (if transaction_logging s then
        (case (if \<not> periodic_logging s
               then (case cash s of
                       None \<Rightarrow> Inl AttributeError
                     | Some c \<Rightarrow>
                         (case portfolio_value s of
                            None \<Rightarrow> Inl AttributeError
                          | Some v \<Rightarrow> Inr (log_line (LogCashValue c v) s)))
               else Inr s) of
           Inl e \<Rightarrow> Inl e
         | Inr s1 \<Rightarrow>
             Inr (log_line (LogRejected (st = Rejected))
                   (log_line (LogMargin (st = Margin))
                     (log_line (LogCanceled (st = Canceled))
                       (log_line LogOrderCanceledMarginRejected s1)))))
      else Inr s)"

definition notify_order :: "bt_order \<Rightarrow> strategy \<Rightarrow> error + strategy" where
  "notify_order ord s =
     (if status ord \<in> {Submitted, Accepted} then Inr s
      else
        (case (if status ord \<in> {Completed} then
                 Inr ((if isbuy ord
                       then (tlog (LogBuyExecuted (price (executed ord))
                                     (ex_value (executed ord)) (comm (executed ord))) s)
                              \<lparr>buyprice := Some (price (executed ord)),
                               buycomm := Some (comm (executed ord))\<rparr>
                       else tlog (LogSellExecuted (price (executed ord))
                                     (ex_value (executed ord)) (comm (executed ord))) s)
                      \<lparr>bar_executed := Some (len_self s)\<rparr>)
               else if status ord \<in> {Canceled, Margin, Rejected} then notify_failed (status ord) s
               else Inr s) of
           Inl e \<Rightarrow> Inl e
         | Inr s1 \<Rightarrow> Inr (s1\<lparr>order := None\<rparr>)))"

definition notify_trade :: "bool \<Rightarrow> rat \<Rightarrow> rat \<Rightarrow> strategy \<Rightarrow> strategy" where
  "notify_trade isclosed pnl pnlcomm s =
     (if \<not> isclosed then s else tlog (LogOperationProfit pnl pnlcomm) s)"

definition notify_cashvalue :: "rat \<Rightarrow> rat \<Rightarrow> strategy \<Rightarrow> strategy" where
  "notify_cashvalue c v s =
     ((if periodic_logging s then log_line (LogCashValue c v) s else s)
        \<lparr>cash := Some c, portfolio_value := Some v\<rparr>)"

subsection \<open>\<open>BaseStrategy.next\<close>\<close>

text \<open>
  The divisor of the affordable size: \<open>price * (1 + COMMISSION_PER_TRANSACTION + 0.001)\<close>.
\<close>

definition unit_cost :: "rat \<Rightarrow> rat" where
  "unit_cost p = p * (1 + COMMISSION_PER_TRANSACTION + 1 / 1000)"

text \<open>
  The affordable size of source lines 169 to 172 (on the current close) and 188 to 191
  (on the next open): \<open>int(cash / (price * (1 + COMMISSION_PER_TRANSACTION + 0.001)))\<close>.
\<close>

definition afforded_size :: "rat \<Rightarrow> rat \<Rightarrow> int" where
  "afforded_size c p = py_int (c / unit_cost p)"

text \<open>
  The buy branch (source lines 159 to 197). Division by a zero divisor raises
  \<open>ZeroDivisionError\<close>; an absent open price makes \<open>int(...)\<close> raise \<open>ValueError\<close>.
\<close>

definition buy_branch :: "strategy \<Rightarrow> error + strategy" where
  "buy_branch s =
     (case cash s of
        None \<Rightarrow> Inl AttributeError
      | Some c \<Rightarrow>
     (case line_get (closes (datas s)) (idx s) 0 of
        Inl e \<Rightarrow> Inl e
      | Inr close0 \<Rightarrow>
     if c \<ge> close0 then
       (case buy_signal s of
          Inl e \<Rightarrow> Inl e
        | Inr sig \<Rightarrow>
       if sig then
         (let s1 = tlog (LogBuyCreate close0) s in
          if unit_cost close0 = 0 then Inl ZeroDivisionError
          else
            (let afforded = afforded_size c close0;
                 buy_prop_size = py_int (of_int afforded * buy_prop s)
             in if execution_type s = ''close'' then
                  (let final_size = min buy_prop_size afforded;
                       s2 = tlog (LogFinalSize final_size)
                             (tlog (LogAffordedSize afforded)
                               (tlog (LogBuyPropSize buy_prop_size)
                                 (tlog (LogPrice close0)
                                   (tlog (LogCash c) s1))));
                       (ord, s3) = strategy_buy final_size Market s2
                   in Inr (s3\<lparr>order := ord\<rparr>))
                else
                  (case line_get (opens (datas s)) (idx s) 1 of
                     Inl e \<Rightarrow> Inl e
                   | Inr None \<Rightarrow> Inl ValueError
                   | Inr (Some open1) \<Rightarrow>
                       if unit_cost open1 = 0 then Inl ZeroDivisionError
                       else
                         (let afforded' = afforded_size c open1;
                              final_size = min buy_prop_size afforded';
                              s2 = tlog (LogFinalSize final_size)
                                    (tlog (LogAffordedSize afforded')
                                      (tlog (LogBuyPropSize buy_prop_size) s1));
                              (ord, s3) = strategy_buy final_size Market s2
                          in Inr (s3\<lparr>order := ord\<rparr>)))))
       else Inr s)
     else Inr s))"

text \<open>The sell branch (source lines 199 to 224).\<close>

definition sell_branch :: "strategy \<Rightarrow> error + strategy" where
  "sell_branch s =
     (case portfolio_value s of
        None \<Rightarrow> Inl AttributeError
      | Some v \<Rightarrow>
     (case cash s of
        None \<Rightarrow> Inl AttributeError
      | Some c \<Rightarrow>
     (let stock_value = v - c in
      if stock_value > 0 then
        (case sell_signal s of
           Inl e \<Rightarrow> Inl e
         | Inr sig \<Rightarrow>
        if sig then
          (case (if transaction_logging s
                 then (case line_get (closes (datas s)) (idx s) 1 of
                         Inl e \<Rightarrow> Inl e
                       | Inr close1 \<Rightarrow> Inr (log_line (LogSellCreate close1) s))
                 else Inr s) of
             Inl e \<Rightarrow> Inl e
           | Inr s1 \<Rightarrow>
          if execution_type s = ''close'' then
            (if SELL_PROP = 1 then
               (let (ord, s2) = strategy_sell (position_size s) Close s1
                in Inr (s2\<lparr>order := ord\<rparr>))
             else
               (case line_get (closes (datas s)) (idx s) 1 of
                  Inl e \<Rightarrow> Inl e
                | Inr close1 \<Rightarrow>
                    if close1 = 0 then Inl ZeroDivisionError
                    else
                      (let (ord, s2) =
                             strategy_sell (py_int ((stock_value / close1) * sell_prop s)) Close s1
                       in Inr (s2\<lparr>order := ord\<rparr>))))
          else
            (case line_get (opens (datas s)) (idx s) 1 of
               Inl e \<Rightarrow> Inl e
             | Inr None \<Rightarrow> Inl ValueError
             | Inr (Some open1) \<Rightarrow>
                 if open1 = 0 then Inl ZeroDivisionError
                 else
                   (let (ord, s2) =
                          strategy_sell (py_int ((init_cash s / open1) * sell_prop s)) Market s1
                    in Inr (s2\<lparr>order := ord\<rparr>))))
        else Inr s)
      else Inr s)))"

text \<open>The last-bar test of source line 153.\<close>

definition last_bar_guard :: "strategy \<Rightarrow> bool" where
  "last_bar_guard s = (len_self s + 1 \<ge> len_data s)"

text \<open>
  \<open>next\<close>: the pending-order return, the last-bar return, then the buy branch followed
  by the sell branch.
\<close>

definition strategy_next :: "strategy \<Rightarrow> error + strategy" where
  "strategy_next s =
     (case (if periodic_logging s
            then (case line_get (closes (datas s)) (idx s) 0 of
                    Inl e \<Rightarrow> Inl e
                  | Inr close0 \<Rightarrow> Inr (log_line (LogClose close0) s))
            else Inr s) of
        Inl e \<Rightarrow> Inl e
      | Inr s1 \<Rightarrow>
          if order s1 \<noteq> None then Inr s1
          else if last_bar_guard s1 then Inr s1
          else
            (let s2 = (if periodic_logging s1
                       then log_line (LogPositionSize (position_size s1)) s1 else s1)
             in case buy_branch s2 of
                  Inl e \<Rightarrow> Inl e
                | Inr s3 \<Rightarrow> sell_branch s3))"

subsection \<open>A concrete feed and strategy\<close>

text \<open>
  Four bars closing at 100 (with opens at 100), the default parameters with a chosen
  execution type, and the base strategy at bar \<open>i\<close> after the engine has reported cash
  \<open>c\<close>, value \<open>v\<close> and position \<open>pos\<close>. They are the inputs at which the properties
  below are evaluated.
\<close>

definition example_feed :: datafeed where
  "example_feed =
     \<lparr>closes = [100, 100, 100, 100],
      opens = [Some 100, Some 100, Some 100, Some 100],
      rsi_line = [50, 50, 50, 50],
      crossover_line = [0, 0, 0, 0]\<rparr>"

definition example_params :: "string \<Rightarrow> params" where
  "example_params et =
     \<lparr>p_init_cash = INIT_CASH, p_buy_prop = BUY_PROP, p_sell_prop = SELL_PROP,
      p_execution_type = et, p_periodic_logging = False, p_transaction_logging = True\<rparr>"

definition example_state :: "string \<Rightarrow> int \<Rightarrow> rat \<Rightarrow> rat \<Rightarrow> int \<Rightarrow> strategy" where
  "example_state et i c v pos =
     notify_cashvalue c v
       ((strategy_init BaseStrategy (example_params et) example_feed)
          \<lparr>idx := i, position_size := pos\<rparr>)"

text \<open>The side and size of every order handed to the broker so far.\<close>

definition submitted_sizes :: "strategy \<Rightarrow> (bool \<times> int) list" where
  "submitted_sizes s = map (\<lambda>ord. (isbuy ord, size ord)) (submitted s)"

subsection \<open>\<open>backtest\<close>\<close>













subsection \<open>The engine around the strategy\<close>

















section \<open>Properties\<close>

subsection \<open>Lines and sizes\<close>

lemma line_get_bar:
  assumes "0 \<le> i" "i < int (length arr)"
  shows "line_get arr i 0 = Inr (arr ! nat i)"
  using assms by (simp add: line_get_def Let_def)









subsection \<open>The pending-order return\<close>

text \<open>
  C1. At any bar of the feed, when \<open>self.order\<close> is not \<open>None\<close>, \<open>next\<close> returns
  without raising and without submitting: the orders handed to the broker, the pending
  order, the position, cash, value and cost basis are unchanged; the whole object is
  unchanged except for the log (which gains the \<open>Close\<close> line under periodic logging).
\<close>

theorem next_pending_order_returns:
  assumes "order s \<noteq> None" and "0 \<le> idx s" and "idx s < int (length (closes (datas s)))"
  shows "\<exists>s'. strategy_next s = Inr s'
           \<and> submitted s' = submitted s \<and> order s' = order s
           \<and> position_size s' = position_size s
           \<and> cash s' = cash s \<and> portfolio_value s' = portfolio_value s
           \<and> buyprice s' = buyprice s \<and> buycomm s' = buycomm s
           \<and> s'\<lparr>logs := logs s\<rparr> = s"
  using assms line_get_bar [of "idx s" "closes (datas s)"]
  by (auto simp: strategy_next_def log_line_def)

theorem next_pending_order_returns_witness:
  "\<exists>s'. strategy_next ((example_state ''close'' 1 900 100000 991)
                          \<lparr>order := Some (new_order True 991 Market)\<rparr>) = Inr s'
        \<and> submitted s' = []"
  using next_pending_order_returns
          [of "(example_state ''close'' 1 900 100000 991)
                 \<lparr>order := Some (new_order True 991 Market)\<rparr>"]
  by (auto simp add: example_state_def example_params_def example_feed_def strategy_init_def
      notify_cashvalue_def simp del: line_items.simps)

subsection \<open>Affordable size\<close>




subsection \<open>The last-bar return\<close>



subsection \<open>What the two branches hand to the broker\<close>

lemma tlog_fields [simp]:
  "submitted (tlog e s) = submitted s" "order (tlog e s) = order s"
  "cash (tlog e s) = cash s" "portfolio_value (tlog e s) = portfolio_value s"
  "datas (tlog e s) = datas s" "idx (tlog e s) = idx s"
  "position_size (tlog e s) = position_size s" "variant (tlog e s) = variant s"
  "execution_type (tlog e s) = execution_type s" "buy_prop (tlog e s) = buy_prop s"
  "sell_prop (tlog e s) = sell_prop s" "init_cash (tlog e s) = init_cash s"
  "transaction_logging (tlog e s) = transaction_logging s"
  "periodic_logging (tlog e s) = periodic_logging s"
  "buyprice (tlog e s) = buyprice s" "buycomm (tlog e s) = buycomm s"
  "len_data (tlog e s) = len_data s"
  by (simp_all add: tlog_def log_line_def)

lemma log_line_fields [simp]:
  "submitted (log_line e s) = submitted s" "order (log_line e s) = order s"
  "cash (log_line e s) = cash s" "portfolio_value (log_line e s) = portfolio_value s"
  "datas (log_line e s) = datas s" "idx (log_line e s) = idx s"
  "position_size (log_line e s) = position_size s" "variant (log_line e s) = variant s"
  "execution_type (log_line e s) = execution_type s" "buy_prop (log_line e s) = buy_prop s"
  "sell_prop (log_line e s) = sell_prop s" "init_cash (log_line e s) = init_cash s"
  "transaction_logging (log_line e s) = transaction_logging s"
  "periodic_logging (log_line e s) = periodic_logging s"
  "buyprice (log_line e s) = buyprice s" "buycomm (log_line e s) = buycomm s"
  "len_data (log_line e s) = len_data s"
  by (simp_all add: log_line_def)

lemma strategy_buy_result:
  "strategy_buy n t s = (ord, s') \<Longrightarrow>
     submitted s' = submitted s @ (if n = 0 then [] else [new_order True n t])
     \<and> ord = (if n = 0 then None else Some (new_order True n t))
     \<and> order s' = order s \<and> logs s' = logs s"
  by (auto simp: strategy_buy_def split: if_splits)

lemma strategy_sell_result:
  "strategy_sell n t s = (ord, s') \<Longrightarrow>
     submitted s' = submitted s @ (if n = 0 then [] else [new_order False n t])
     \<and> ord = (if n = 0 then None else Some (new_order False n t))
     \<and> order s' = order s \<and> logs s' = logs s"
  by (auto simp: strategy_sell_def split: if_splits)






lemma signal_logs [simp]:
  "buy_signal (s\<lparr>logs := ls\<rparr>) = buy_signal s"
  "sell_signal (s\<lparr>logs := ls\<rparr>) = sell_signal s"
  "sell_signal (s\<lparr>sell_prop := x\<rparr>) = sell_signal s"
  by (simp_all add: buy_signal_def sell_signal_def split: variant.splits)


subsection \<open>Degenerate buy size\<close>


lemmas ex_defs = example_state_def example_params_def example_feed_def strategy_init_def
      notify_cashvalue_def INIT_CASH_def BUY_PROP_def SELL_PROP_def



subsection \<open>Buy and sell within one bar\<close>





subsection \<open>Sell sizes\<close>

lemma sell_branch_close:
  assumes "execution_type s = ''close''"
    and "cash s = Some c" and "portfolio_value s = Some v" and "c < v"
    and "sell_signal s = Inr True"
    and "transaction_logging s \<longrightarrow> (\<exists>c1. line_get (closes (datas s)) (idx s) 1 = Inr c1)"
  shows "\<exists>s'. sell_branch s = Inr s'
           \<and> submitted s' = submitted s @
                (if position_size s = 0 then [] else [new_order False (position_size s) Close])
           \<and> order s' =
                (if position_size s = 0 then None else Some (new_order False (position_size s) Close))"
  using assms
  by (auto simp: sell_branch_def Let_def strategy_sell_def SELL_PROP_def log_line_def)

text \<open>
  C9. Under close timing, when the sell branch fires on a held position, the order it
  submits is a sell of the whole position, whatever the configured \<open>sell_prop\<close> is:
  the test is on the module constant \<open>SELL_PROP\<close>, which is 1.
\<close>

theorem close_sell_ignores_sell_prop:
  assumes "execution_type s = ''close''"
    and "cash s = Some c" and "portfolio_value s = Some v" and "c < v"
    and "sell_signal s = Inr True"
    and "transaction_logging s \<longrightarrow> (\<exists>c1. line_get (closes (datas s)) (idx s) 1 = Inr c1)"
    and "0 < position_size s"
  shows "\<exists>s' ord. sell_branch (s\<lparr>sell_prop := x\<rparr>) = Inr s'
           \<and> submitted s' = submitted s @ [ord] \<and> order s' = Some ord
           \<and> \<not> isbuy ord \<and> exec_type ord = Close \<and> size ord = position_size s"
  using sell_branch_close [of "s\<lparr>sell_prop := x\<rparr>" c v] assms
  by (auto simp: new_order_def)

theorem close_sell_ignores_sell_prop_witness:
  "\<exists>s' ord. sell_branch ((example_state ''close'' 1 900 100000 991)\<lparr>sell_prop := 1 / 2\<rparr>) = Inr s'
           \<and> submitted s' = [ord] \<and> size ord = 991"
  using close_sell_ignores_sell_prop [of "example_state ''close'' 1 900 100000 991" 900 100000 "1 / 2"]
  by (auto simp add: ex_defs line_get_def sell_signal_def simp del: line_items.simps)

text \<open>
  C4 at open timing. Holding 991 units (cash 50, value 99150, next open 100, initial cash
  100000, sell proportion 1) the sell branch submits a sell of
  \<open>int((init_cash / open) * sell_prop) = 1000\<close> units, more than the position.
\<close>

theorem open_sell_exceeds_position:
  "map_sum id submitted_sizes (strategy_next (example_state ''open'' 1 50 99150 991))
     = Inr [(False, 1000)]
   \<and> position_size (example_state ''open'' 1 50 99150 991) = 991"
  by code_simp

subsection \<open>Order notifications\<close>

text \<open>
  C7, as the code has it. Let cash and value have been reported (as they have been
  before any order exists). A notification with status \<open>Completed\<close>, \<open>Canceled\<close>,
  \<open>Margin\<close> or \<open>Rejected\<close> clears \<open>self.order\<close> and changes neither cash, value,
  position nor the orders submitted. A completed buy records the executed price and
  commission as \<open>buyprice\<close> and \<open>buycomm\<close>; a completed sell leaves them. On
  \<open>Canceled\<close>, \<open>Margin\<close> and \<open>Rejected\<close> the cost basis is unchanged too and, when
  \<open>transaction_logging\<close> is on, the log gains (after the cash and value line that is
  printed unless periodic logging is on) the heading and three lines, one per cause,
  each with the truth value of its own cause; when \<open>transaction_logging\<close> is off
  nothing is logged.
\<close>

theorem notify_order_terminal:
  assumes "status ord \<in> {Completed, Canceled, Margin, Rejected}"
    and "cash s = Some c" and "portfolio_value s = Some v"
  shows "\<exists>s'. notify_order ord s = Inr s' \<and> order s' = None
       \<and> cash s' = cash s \<and> portfolio_value s' = portfolio_value s
       \<and> position_size s' = position_size s \<and> submitted s' = submitted s
       \<and> (status ord = Completed \<and> isbuy ord \<longrightarrow>
             buyprice s' = Some (price (executed ord)) \<and> buycomm s' = Some (comm (executed ord)))
       \<and> (status ord = Completed \<and> \<not> isbuy ord \<longrightarrow>
             buyprice s' = buyprice s \<and> buycomm s' = buycomm s)
       \<and> (status ord \<noteq> Completed \<longrightarrow>
             buyprice s' = buyprice s \<and> buycomm s' = buycomm s
             \<and> logs s' = logs s @
                 (if transaction_logging s
                  then (if periodic_logging s then [] else [LogCashValue c v]) @
                       [LogOrderCanceledMarginRejected,
                        LogCanceled (status ord = Canceled),
                        LogMargin (status ord = Margin),
                        LogRejected (status ord = Rejected)]
                  else []))"
  using assms
  by (auto simp: notify_order_def notify_failed_def tlog_def log_line_def)

theorem notify_order_terminal_witness:
  "\<exists>s'. notify_order ((new_order True 991 Market)\<lparr>status := Margin\<rparr>)
               (example_state ''close'' 1 900 100000 0) = Inr s'
        \<and> order s' = None
        \<and> logs s' = [LogCashValue 900 100000, LogOrderCanceledMarginRejected,
                      LogCanceled False, LogMargin True, LogRejected False]"
  using notify_order_terminal
          [of "(new_order True 991 Market)\<lparr>status := Margin\<rparr>"
              "example_state ''close'' 1 900 100000 0" 900 100000]
  by (auto simp add: ex_defs new_order_def simp del: line_items.simps)

text \<open>
  The claim as stated has the causes logged on every such notification. With
  \<open>transaction_logging\<close> off, a \<open>Margin\<close> notification leaves the log empty.
\<close>

theorem notify_order_logging_off:
  "map_sum id logs
     (notify_order ((new_order True 991 Market)\<lparr>status := Margin\<rparr>)
        ((example_state ''close'' 1 900 100000 0)\<lparr>transaction_logging := False\<rparr>))
   = Inr []"
  by code_simp

subsection \<open>Configuration\<close>




subsection \<open>The commission argument\<close>




end
